theory Spec2Isabelle
  imports Main
begin

section \<open>Data model of the lock package\<close>

text \<open>
  An annotation map is Go's \<^verbatim>\<open>map[string]string\<close>, taken as a value: the
  assignment \<^verbatim>\<open>ann[key] = v\<close> gives the map that is passed on to \<^verbatim>\<open>updateMeta\<close>.
  A time is a point on the time line counted in nanoseconds and a duration
  (\<^verbatim>\<open>time.Duration\<close>, an \<^verbatim>\<open>int64\<close>) a number of nanoseconds; \<^verbatim>\<open>t.Add(d)\<close> is
  \<open>t + d\<close>, which is exact for the dates \<^verbatim>\<open>time.Now\<close> returns, and \<^verbatim>\<open>t.Before(u)\<close>
  is \<open>t < u\<close>.
\<close>

type_synonym annotations = "string \<rightharpoonup> string"
type_synonym time = int
type_synonym duration = int

text \<open>\<^verbatim>\<open>type LockData struct { Owner string; ExpiresAt time.Time }\<close>\<close>

record LockData =
  Owner :: string
  ExpiresAt :: time

text \<open>
  The two sentinel errors of \<^verbatim>\<open>error.go\<close>, and the errors a call can return:
  \<^verbatim>\<open>errgo.WithCausef(nil, cause, format, args)\<close> with its cause and its formatted
  message, or an error of a collaborator or of the JSON codec, which the package
  never inspects.
\<close>

datatype cause = AlreadyLockedError | NotLockedByMeError

datatype 'e error = WithCausef cause string | Opaque 'e

text \<open>
  Modelled from the spec: \<^verbatim>\<open>maskAny\<close> is called on every returned error, and its
  definition is missing from the sources (\<^verbatim>\<open>error.go\<close> has it commented out). The
  spec says that every error is surfaced to the caller unmodified in kind and that
  collaborator errors are passed through unchanged.
\<close>

definition maskAny :: "'e error \<Rightarrow> 'e error" where
  "maskAny err = err"

text \<open>
  The collaborators are closures over a remote store. Here they are functions on
  a world \<open>'w\<close> that return their Go results and the world after the call.
  A \<^verbatim>\<open>MetaGetter\<close> returns the annotations (\<open>None\<close> is the nil map), the resource
  version and the item, or an error; a \<^verbatim>\<open>MetaUpdater\<close> returns nil (\<open>None\<close>) or
  an error. \<open>'x\<close> is the type of the item (\<^verbatim>\<open>interface{}\<close>).
\<close>

record ('w, 'x, 'e) kubeLock =
  annotationKey :: string
  ownerID :: string
  ttl :: duration
  createMeta :: "'w \<Rightarrow> ('e + 'x) \<times> 'w"
  existsMeta :: "'w \<Rightarrow> bool \<times> 'w"
  getMeta :: "'w \<Rightarrow> ('e + (annotations option \<times> string \<times> 'x)) \<times> 'w"
  updateMeta :: "annotations \<Rightarrow> string \<Rightarrow> 'x \<Rightarrow> 'w \<Rightarrow> 'e option \<times> 'w"

text \<open>
  What the package takes from the Go runtime: the clock (\<^verbatim>\<open>time.Now\<close>, read in
  a world and leaving a world in which time has passed) and the JSON codec of
  \<^verbatim>\<open>LockData\<close> (\<^verbatim>\<open>json.Unmarshal\<close>, \<^verbatim>\<open>json.Marshal\<close>), both of which can fail.
\<close>

record ('w, 'e) runtime =
  now :: "'w \<Rightarrow> time \<times> 'w"
  Unmarshal :: "string \<Rightarrow> 'e + LockData"
  Marshal :: "LockData \<Rightarrow> 'e + string"

text \<open>
  Every operation returns its Go result, the world it leaves and the collaborator
  calls it made, in order; an update call is recorded with its three arguments.
\<close>

datatype 'x call = CallExists | CallCreate | CallGet | CallUpdate annotations string 'x

abbreviation result :: "'a \<times> 'w \<times> 'x call list \<Rightarrow> 'a" where
  "result r \<equiv> fst r"

abbreviation world :: "'a \<times> 'w \<times> 'x call list \<Rightarrow> 'w" where
  "world r \<equiv> fst (snd r)"

abbreviation calls :: "'a \<times> 'w \<times> 'x call list \<Rightarrow> 'x call list" where
  "calls r \<equiv> snd (snd r)"

fun is_update :: "'x call \<Rightarrow> bool" where
  "is_update (CallUpdate ann rv item) = True"
| "is_update _ = False"

text \<open>
  \<^verbatim>\<open>if ann == nil { ann = make(map[string]string) }\<close>; reading a key of a nil
  map finds nothing, as in the empty map.
\<close>

definition non_nil :: "annotations option \<Rightarrow> annotations" where
  "non_nil ann = (case ann of None \<Rightarrow> Map.empty | Some m \<Rightarrow> m)"

section \<open>Acquire\<close>

text \<open>Lines 100 to 106: create the resource when it does not exist.\<close>

definition Acquire_ensure ::
  "('w, 'x, 'e) kubeLock \<Rightarrow> 'w \<Rightarrow> 'e error option \<times> 'w \<times> 'x call list" where
  "Acquire_ensure l w0 =
     (case existsMeta l w0 of
        (ex, w1) \<Rightarrow>
          if ex = False then
            (case createMeta l w1 of
               (Inl err, w2) \<Rightarrow> (Some (maskAny (Opaque err)), w2, [CallExists, CallCreate])
             | (Inr item, w2) \<Rightarrow> (None, w2, [CallExists, CallCreate]))
          else (None, w1, [CallExists]))"

text \<open>
  Lines 117 to 129: the lock data found under the annotation key. \<open>Some err\<close>
  returns \<open>err\<close> from Acquire, \<open>None\<close> goes on to lock. The clock is read only for
  a lock of another owner.
\<close>

definition Acquire_check ::
  "('w, 'x, 'e) kubeLock \<Rightarrow> ('w, 'e) runtime \<Rightarrow> annotations \<Rightarrow> 'w \<Rightarrow> 'e error option \<times> 'w" where
  "Acquire_check l p ann w =
     (case ann (annotationKey l) of
        None \<Rightarrow> (None, w)
      | Some lockDataRaw \<Rightarrow>
          if lockDataRaw \<noteq> [] then
            (case Unmarshal p lockDataRaw of
               Inl err \<Rightarrow> (Some (maskAny (Opaque err)), w)
             | Inr lockData \<Rightarrow>
                 if Owner lockData \<noteq> ownerID l then
                   (case now p w of
                      (t, w') \<Rightarrow>
                        if t < ExpiresAt lockData then
                          (Some (maskAny (WithCausef AlreadyLockedError
                                   (''locked by '' @ Owner lockData))), w')
                        else (None, w'))
                 else (None, w))
          else (None, w))"

text \<open>
  Lines 100 to 137: everything before the call of \<^verbatim>\<open>updateMeta\<close>. The result is
  the error Acquire returns, or the three arguments of the update.
\<close>

definition Acquire_prepare ::
  "('w, 'x, 'e) kubeLock \<Rightarrow> ('w, 'e) runtime \<Rightarrow> 'w \<Rightarrow>
     ('e error + annotations \<times> string \<times> 'x) \<times> 'w \<times> 'x call list" where
  "Acquire_prepare l p w0 =
     (case Acquire_ensure l w0 of
        (Some err, w1, cs) \<Rightarrow> (Inl err, w1, cs)
      | (None, w1, cs) \<Rightarrow>
          (case getMeta l w1 of
             (Inl err, w2) \<Rightarrow> (Inl (maskAny (Opaque err)), w2, cs @ [CallGet])
           | (Inr (ann0, rv, extra), w2) \<Rightarrow>
               (case Acquire_check l p (non_nil ann0) w2 of
                  (Some err, w3) \<Rightarrow> (Inl err, w3, cs @ [CallGet])
                | (None, w3) \<Rightarrow>
                    (case now p w3 of
                       (t, w4) \<Rightarrow>
                         (case Marshal p \<lparr>Owner = ownerID l, ExpiresAt = t + ttl l\<rparr> of
                            Inl err \<Rightarrow> (Inl (maskAny (Opaque err)), w4, cs @ [CallGet])
                          | Inr lockDataRaw \<Rightarrow>
                              (Inr ((non_nil ann0)(annotationKey l \<mapsto> lockDataRaw), rv, extra),
                               w4, cs @ [CallGet]))))))"

text \<open>Lines 138 to 143: the conditional update and the result of Acquire.\<close>

definition Acquire_update ::
  "('w, 'x, 'e) kubeLock \<Rightarrow> annotations \<times> string \<times> 'x \<Rightarrow> 'w \<Rightarrow>
     'e error option \<times> 'w \<times> 'x call list" where
  "Acquire_update l u w =
     (case u of
        (ann, rv, extra) \<Rightarrow>
          (case updateMeta l ann rv extra w of
             (Some err, w') \<Rightarrow> (Some (maskAny (Opaque err)), w', [CallUpdate ann rv extra])
           | (None, w') \<Rightarrow> (None, w', [CallUpdate ann rv extra])))"

definition Acquire ::
  "('w, 'x, 'e) kubeLock \<Rightarrow> ('w, 'e) runtime \<Rightarrow> 'w \<Rightarrow> 'e error option \<times> 'w \<times> 'x call list" where
  "Acquire l p w0 =
     (case Acquire_prepare l p w0 of
        (Inl err, w1, cs) \<Rightarrow> (Some err, w1, cs)
      | (Inr u, w1, cs) \<Rightarrow>
          (case Acquire_update l u w1 of
             (r, w2, cs') \<Rightarrow> (r, w2, cs @ cs')))"

section \<open>Release\<close>

text \<open>
  Lines 164 to 176: \<open>Some r\<close> returns \<open>r\<close> from Release, \<open>None\<close> goes on to the
  update. The \<^verbatim>\<open>else if\<close> returns nil only for a key that is present (\<^verbatim>\<open>ok\<close>) with
  the empty value.
\<close>

definition Release_check ::
  "('w, 'x, 'e) kubeLock \<Rightarrow> ('w, 'e) runtime \<Rightarrow> annotations \<Rightarrow> 'e error option option" where
  "Release_check l p ann =
     (case ann (annotationKey l) of
        None \<Rightarrow> None
      | Some lockDataRaw \<Rightarrow>
          if lockDataRaw \<noteq> [] then
            (case Unmarshal p lockDataRaw of
               Inl err \<Rightarrow> Some (Some (maskAny (Opaque err)))
             | Inr lockData \<Rightarrow>
                 if Owner lockData \<noteq> ownerID l then
                   Some (Some (maskAny (WithCausef NotLockedByMeError
                                 (''locked by '' @ Owner lockData))))
                 else None)
          else if lockDataRaw = [] then Some None
          else None)"

definition Release ::
  "('w, 'x, 'e) kubeLock \<Rightarrow> ('w, 'e) runtime \<Rightarrow> 'w \<Rightarrow> 'e error option \<times> 'w \<times> 'x call list" where
  "Release l p w0 =
     (case existsMeta l w0 of
        (ex, w1) \<Rightarrow>
          if ex = False then (None, w1, [CallExists])
          else
            (case getMeta l w1 of
               (Inl err, w2) \<Rightarrow> (Some (maskAny (Opaque err)), w2, [CallExists, CallGet])
             | (Inr (ann0, rv, extra), w2) \<Rightarrow>
                 (case Release_check l p (non_nil ann0) of
                    Some r \<Rightarrow> (r, w2, [CallExists, CallGet])
                  | None \<Rightarrow>
                      (case updateMeta l ((non_nil ann0)(annotationKey l \<mapsto> [])) rv extra w2 of
                         (Some err, w3) \<Rightarrow>
                           (Some (maskAny (Opaque err)), w3,
                            [CallExists, CallGet,
                             CallUpdate ((non_nil ann0)(annotationKey l \<mapsto> [])) rv extra])
                       | (None, w3) \<Rightarrow>
                           (None, w3,
                            [CallExists, CallGet,
                             CallUpdate ((non_nil ann0)(annotationKey l \<mapsto> [])) rv extra])))))"

section \<open>CurrentOwner\<close>

text \<open>
  The Go result is the pair of the owner and the error. The annotations are read
  as they come, a nil map included.
\<close>

definition CurrentOwner ::
  "('w, 'x, 'e) kubeLock \<Rightarrow> ('w, 'e) runtime \<Rightarrow> 'w \<Rightarrow>
     (string \<times> 'e error option) \<times> 'w \<times> 'x call list" where
  "CurrentOwner l p w0 =
     (case getMeta l w0 of
        (Inl err, w1) \<Rightarrow> (([], Some (maskAny (Opaque err))), w1, [CallGet])
      | (Inr (ann0, rv, extra), w1) \<Rightarrow>
          (case non_nil ann0 (annotationKey l) of
             None \<Rightarrow> (([], None), w1, [CallGet])
           | Some lockDataRaw \<Rightarrow>
               if lockDataRaw \<noteq> [] then
                 (case Unmarshal p lockDataRaw of
                    Inl err \<Rightarrow> (([], Some (maskAny (Opaque err))), w1, [CallGet])
                  | Inr lockData \<Rightarrow> ((Owner lockData, None), w1, [CallGet]))
               else (([], None), w1, [CallGet])))"

section \<open>A store behind the collaborators\<close>

text \<open>
  Modelled from the spec: the remote store behind the four collaborators is not
  part of the sources. The spec describes it as one object with a field map, an
  opaque version token and a payload, reached through \<^verbatim>\<open>exists\<close>, \<^verbatim>\<open>create\<close>,
  \<^verbatim>\<open>get\<close> and a conditional \<^verbatim>\<open>update\<close>. The world of the store also holds the
  clock. \<open>fault\<close> lists the errors of the store (among them the distinguishable
  conflict error) and of the codec of the examples.
\<close>

datatype fault = NotFound | AlreadyExists | Conflict | SyntaxError | MarshalerError

record 'x store =
  object :: "(annotations option \<times> 'x) option"
  version :: string
  clock :: time

text \<open>
  Modelled from the spec: a write lands only if no other writer touched the
  object since the token was read, so every write that lands gives the object a
  version token different from the one before (here: one character longer).
\<close>

definition next_version :: "string \<Rightarrow> string" where
  "next_version v = CHR ''1'' # v"

text \<open>
  Modelled from the spec: \<^verbatim>\<open>exists()\<close> returns whether the backing object
  currently exists, with no error channel.
\<close>

definition store_exists :: "'x store \<Rightarrow> bool \<times> 'x store" where
  "store_exists s = (case object s of None \<Rightarrow> (False, s) | Some obj \<Rightarrow> (True, s))"

text \<open>
  Modelled from the spec: \<^verbatim>\<open>create()\<close> creates the backing object if absent and
  returns the created representation, or an error. A new object has no
  annotations yet (the nil map).
\<close>

definition store_create :: "'x \<Rightarrow> 'x store \<Rightarrow> (fault + 'x) \<times> 'x store" where
  "store_create item s =
     (case object s of
        None \<Rightarrow> (Inr item, s\<lparr>object := Some (None, item), version := next_version (version s)\<rparr>)
      | Some obj \<Rightarrow> (Inl AlreadyExists, s))"

text \<open>
  Modelled from the spec: \<^verbatim>\<open>get()\<close> returns the current field map, the version
  token and the object payload, or an error.
\<close>

definition store_get ::
  "'x store \<Rightarrow> (fault + (annotations option \<times> string \<times> 'x)) \<times> 'x store" where
  "store_get s =
     (case object s of
        None \<Rightarrow> (Inl NotFound, s)
      | Some (ann, item) \<Rightarrow> (Inr (ann, version s, item), s))"

text \<open>
  Modelled from the spec: \<^verbatim>\<open>update(fields, versionToken, payload)\<close> writes the
  field map back only if \<open>versionToken\<close> still is the store's current version, and
  returns an error, the conflict error on a version mismatch, otherwise.
\<close>

definition store_update ::
  "annotations \<Rightarrow> string \<Rightarrow> 'x \<Rightarrow> 'x store \<Rightarrow> fault option \<times> 'x store" where
  "store_update ann rv item s =
     (case object s of
        None \<Rightarrow> (Some NotFound, s)
      | Some obj \<Rightarrow>
          if rv = version s then
            (None, s\<lparr>object := Some (Some ann, item), version := next_version (version s)\<rparr>)
          else (Some Conflict, s))"

text \<open>The clock of the store's world moves on by a nanosecond at every reading.\<close>

definition store_now :: "'x store \<Rightarrow> time \<times> 'x store" where
  "store_now s = (clock s, s\<lparr>clock := clock s + 1\<rparr>)"

text \<open>A coordinator whose collaborators are the operations of the store.\<close>

definition store_lock :: "string \<Rightarrow> string \<Rightarrow> duration \<Rightarrow> 'x \<Rightarrow> ('x store, 'x, fault) kubeLock" where
  "store_lock key owner d item =
     \<lparr>annotationKey = key, ownerID = owner, ttl = d,
      createMeta = store_create item, existsMeta = store_exists,
      getMeta = store_get, updateMeta = store_update\<rparr>"

text \<open>
  A small codec that stands for the JSON codec on the examples: the owner, an
  \<open>@\<close>, and one dot for every nanosecond of the expiry time. Times before 0 are
  not encoded, and a string without \<open>@\<close> before its dots is not decoded.
\<close>

definition sample_Marshal :: "LockData \<Rightarrow> fault + string" where
  "sample_Marshal d =
     (if ExpiresAt d < 0 then Inl MarshalerError
      else Inr (Owner d @ ''@'' @ replicate (nat (ExpiresAt d)) CHR ''.''))"

definition is_dot :: "char \<Rightarrow> bool" where
  "is_dot c = (c = CHR ''.'')"

definition sample_Unmarshal :: "string \<Rightarrow> fault + LockData" where
  "sample_Unmarshal raw =
     (case dropWhile is_dot (rev raw) of
        [] \<Rightarrow> Inl SyntaxError
      | c # rest \<Rightarrow>
          if c = CHR ''@'' then
            Inr \<lparr>Owner = rev rest, ExpiresAt = int (length (takeWhile is_dot (rev raw)))\<rparr>
          else Inl SyntaxError)"

definition sample_runtime :: "('x store, fault) runtime" where
  "sample_runtime = \<lparr>now = store_now, Unmarshal = sample_Unmarshal, Marshal = sample_Marshal\<rparr>"

text \<open>
  Example worlds at time 10, with the string \<open>''node''\<close> as payload and the lock
  under the key \<open>''lock''\<close>: no object; an object with nil annotations;
  annotations without the key; the key present and empty; a lock of \<open>''A''\<close>
  that expired at 3; a lock of \<open>''A''\<close> that expires at 12; and a value that is
  not a lock record. \<open>lock_A\<close> and \<open>lock_B\<close> are the coordinators of the owners
  \<open>''A''\<close> and \<open>''B''\<close> on that key, with a ttl of 5.
\<close>

definition sample_store :: "(annotations option \<times> string) option \<Rightarrow> string store" where
  "sample_store obj = \<lparr>object = obj, version = ''7'', clock = 10\<rparr>"

definition world_missing :: "string store" where
  "world_missing = sample_store None"

definition world_fresh :: "string store" where
  "world_fresh = sample_store (Some (None, ''node''))"

definition world_unlocked :: "string store" where
  "world_unlocked = sample_store (Some (Some [''tier'' \<mapsto> ''db''], ''node''))"

definition world_released :: "string store" where
  "world_released = sample_store (Some (Some [''lock'' \<mapsto> ''''], ''node''))"

definition world_expired :: "string store" where
  "world_expired = sample_store (Some (Some [''lock'' \<mapsto> ''A@...'', ''tier'' \<mapsto> ''db''], ''node''))"

definition world_held :: "string store" where
  "world_held =
     sample_store (Some (Some [''lock'' \<mapsto> ''A@............'', ''tier'' \<mapsto> ''db''], ''node''))"

definition world_garbled :: "string store" where
  "world_garbled = sample_store (Some (Some [''lock'' \<mapsto> ''{''], ''node''))"

definition lock_A :: "(string store, string, fault) kubeLock" where
  "lock_A = store_lock ''lock'' ''A'' 5 ''node''"

definition lock_B :: "(string store, string, fault) kubeLock" where
  "lock_B = store_lock ''lock'' ''B'' 5 ''node''"

text \<open>
  Two coordinators are two processes: what the other one does happens between
  two collaborator calls of this one. \<open>after_get l rival\<close> is the coordinator \<open>l\<close>
  in a run where, right after its \<^verbatim>\<open>getMeta\<close> has returned, the world changes by
  \<open>rival\<close>: everything the other process does between this coordinator's fetch and
  its update.
\<close>

definition after_get :: "('w, 'x, 'e) kubeLock \<Rightarrow> ('w \<Rightarrow> 'w) \<Rightarrow> ('w, 'x, 'e) kubeLock" where
  "after_get l rival = l\<lparr>getMeta := (\<lambda>w. case getMeta l w of (r, w') \<Rightarrow> (r, rival w'))\<rparr>"

text \<open>
  \<^verbatim>\<open>json.Marshal\<close> encodes a Go string coerced to valid UTF-8: every invalid byte
  becomes the replacement character U+FFFD, the three bytes EF BF BD. The byte
  FF is invalid wherever it stands. \<open>coercing_Marshal\<close> is the codec of the
  examples with this coercion of the owner, for the byte FF; \<open>lock_FF\<close> is the
  coordinator whose owner is the one byte FF, and \<open>world_locked_FF\<close> the world its
  first Acquire leaves when it starts in \<open>world_fresh\<close>.
\<close>

definition coerce_byte :: "char \<Rightarrow> string" where
  "coerce_byte c = (if c = CHR 0xFF then [CHR 0xEF, CHR 0xBF, CHR 0xBD] else [c])"

definition coercing_Marshal :: "LockData \<Rightarrow> fault + string" where
  "coercing_Marshal d = sample_Marshal (d\<lparr>Owner := concat (map coerce_byte (Owner d))\<rparr>)"

definition coercing_runtime :: "('x store, fault) runtime" where
  "coercing_runtime =
     \<lparr>now = store_now, Unmarshal = sample_Unmarshal, Marshal = coercing_Marshal\<rparr>"

definition lock_FF :: "(string store, string, fault) kubeLock" where
  "lock_FF = store_lock ''lock'' [CHR 0xFF] 5 ''node''"

definition world_locked_FF :: "string store" where
  "world_locked_FF =
     \<lparr>object = Some (Some [''lock'' \<mapsto> [CHR 0xEF, CHR 0xBF, CHR 0xBD] @ ''@...............''], ''node''),
      version = ''17'', clock = 11\<rparr>"

section \<open>Properties\<close>

subsection \<open>Unfolding the examples, and the phases of the operations\<close>

lemmas sample_defs = sample_runtime_def sample_Marshal_def sample_Unmarshal_def is_dot_def
  sample_store_def world_missing_def world_fresh_def world_unlocked_def world_released_def world_expired_def
  world_held_def world_garbled_def lock_A_def lock_B_def store_lock_def
  store_exists_def store_create_def store_get_def store_update_def store_now_def next_version_def

lemma Acquire_ensure_calls: "filter is_update (calls (Acquire_ensure l w)) = []"
  by (simp add: Acquire_ensure_def split: prod.split sum.split)

lemma Acquire_ensure_no_update: "Acquire_ensure l w0 = (r, w1, cs) \<Longrightarrow> filter is_update cs = []"
  using Acquire_ensure_calls [of l w0] by simp

lemma Acquire_ensure_only: "CallUpdate ann rv item \<notin> set (calls (Acquire_ensure l w))"
  by (simp add: Acquire_ensure_def split: prod.split sum.split)

lemma Acquire_check_foreign_live:
  assumes "ann (annotationKey l) = Some raw" "raw \<noteq> []" "Unmarshal p raw = Inr d"
    "Owner d \<noteq> ownerID l" "now p w = (t, w')" "t < ExpiresAt d"
  shows "Acquire_check l p ann w = (Some (WithCausef AlreadyLockedError (''locked by '' @ Owner d)), w')"
  using assms by (simp add: Acquire_check_def maskAny_def)


lemma Acquire_check_malformed:
  assumes "ann (annotationKey l) = Some raw" "raw \<noteq> []" "Unmarshal p raw = Inl err"
  shows "Acquire_check l p ann w = (Some (Opaque err), w)"
  using assms by (simp add: Acquire_check_def maskAny_def)

lemma Acquire_stopped:
  assumes "Acquire_ensure l w0 = (None, w1, cs)"
    and "getMeta l w1 = (Inr (ann0, rv, extra), w2)"
    and "Acquire_check l p (non_nil ann0) w2 = (Some err, w3)"
  shows "Acquire l p w0 = (Some err, w3, cs @ [CallGet])"
  using assms by (simp add: Acquire_def Acquire_prepare_def)


lemma Acquire_rejected:
  assumes "Acquire_ensure l w0 = (None, w1, cs)"
    and "getMeta l w1 = (Inr (ann0, rv, extra), w2)"
    and "Acquire_check l p (non_nil ann0) w2 = (None, w3)"
    and "now p w3 = (t, w4)"
    and "Marshal p \<lparr>Owner = ownerID l, ExpiresAt = t + ttl l\<rparr> = Inr raw"
    and "updateMeta l ((non_nil ann0)(annotationKey l \<mapsto> raw)) rv extra w4 = (Some err, w5)"
  shows "Acquire l p w0 =
    (Some (Opaque err), w5,
     cs @ [CallGet, CallUpdate ((non_nil ann0)(annotationKey l \<mapsto> raw)) rv extra])"
  using assms by (simp add: Acquire_def Acquire_prepare_def Acquire_update_def maskAny_def)

lemma Acquire_update_call:
  assumes "CallUpdate ann rv item \<in> set (calls (Acquire l p w0))"
  shows "\<exists>ann0 w2 raw. getMeta l (world (Acquire_ensure l w0)) = (Inr (ann0, rv, item), w2)
    \<and> ann = (non_nil ann0)(annotationKey l \<mapsto> raw)
    \<and> calls (Acquire l p w0) = calls (Acquire_ensure l w0) @ [CallGet, CallUpdate ann rv item]"
proof -
  obtain r w1 cs where ens: "Acquire_ensure l w0 = (r, w1, cs)"
    by (cases "Acquire_ensure l w0") auto
  have cs: "CallUpdate ann rv item \<notin> set cs"
    using Acquire_ensure_only [of ann rv item l w0] ens by simp
  show ?thesis
    using assms cs
    by (auto simp add: Acquire_def Acquire_prepare_def Acquire_update_def ens
        split: prod.splits sum.splits option.splits)
qed

lemma Release_check_malformed:
  assumes "ann (annotationKey l) = Some raw" "raw \<noteq> []" "Unmarshal p raw = Inl err"
  shows "Release_check l p ann = Some (Some (Opaque err))"
  using assms by (simp add: Release_check_def maskAny_def)

lemma Release_stopped:
  assumes "existsMeta l w0 = (True, w1)"
    and "getMeta l w1 = (Inr (ann0, rv, extra), w2)"
    and "Release_check l p (non_nil ann0) = Some r"
  shows "Release l p w0 = (r, w2, [CallExists, CallGet])"
  using assms by (simp add: Release_def)

lemma Release_written:
  assumes "existsMeta l w0 = (True, w1)"
    and "getMeta l w1 = (Inr (ann0, rv, extra), w2)"
    and "Release_check l p (non_nil ann0) = None"
  shows "calls (Release l p w0) =
      [CallExists, CallGet, CallUpdate ((non_nil ann0)(annotationKey l \<mapsto> [])) rv extra]
    \<and> world (Release l p w0) = snd (updateMeta l ((non_nil ann0)(annotationKey l \<mapsto> [])) rv extra w2)
    \<and> result (Release l p w0) =
      map_option Opaque (fst (updateMeta l ((non_nil ann0)(annotationKey l \<mapsto> [])) rv extra w2))"
  using assms by (simp add: Release_def maskAny_def split: prod.split option.split)

lemma Release_update_call:
  assumes "CallUpdate ann rv item \<in> set (calls (Release l p w0))"
  shows "\<exists>ann0 w2. getMeta l (snd (existsMeta l w0)) = (Inr (ann0, rv, item), w2)
    \<and> ann = (non_nil ann0)(annotationKey l \<mapsto> [])
    \<and> calls (Release l p w0) = [CallExists, CallGet, CallUpdate ann rv item]"
  using assms
  by (auto simp add: Release_def split: prod.splits sum.splits option.splits if_splits)

lemma store_Acquire_free:
  assumes "now p = store_now"
    and "object s = Some (ann0, x)"
    and "non_nil ann0 key = None \<or> non_nil ann0 key = Some []"
    and "Marshal p \<lparr>Owner = owner, ExpiresAt = clock s + d\<rparr> = Inr raw"
  shows "Acquire (store_lock key owner d item) p s =
    (None,
     \<lparr>object = Some (Some ((non_nil ann0)(key \<mapsto> raw)), x),
      version = next_version (version s), clock = clock s + 1\<rparr>,
     [CallExists, CallGet, CallUpdate ((non_nil ann0)(key \<mapsto> raw)) (version s) x])"
  using assms
  by (auto simp add: Acquire_def Acquire_prepare_def Acquire_ensure_def Acquire_check_def
      Acquire_update_def store_lock_def store_exists_def store_get_def store_update_def
      store_now_def)

subsection \<open>Two coordinators racing Acquire\<close>

text \<open>
  C1 (mutual exclusion). Two coordinators \<open>a\<close> and \<open>b\<close>, with any owners, race
  Acquire on the record of the store above, which has no holder (the key is
  absent or empty). Coordinator \<open>a\<close> fetches; then \<open>b\<close> runs its whole Acquire,
  fetching the same version and landing its update; then \<open>a\<close> goes on to its own
  update. The Acquire of \<open>b\<close> succeeds, and the Acquire of \<open>a\<close>, which submits the
  same version token, returns the store's conflict error as it is and leaves the
  record of \<open>b\<close> in place. The two fetches only read the store, so their order
  does not matter, and \<open>a\<close> and \<open>b\<close> are arbitrary: whichever update comes
  second is the one refused, so at most one Acquire succeeds.
\<close>

theorem Acquire_mutual_exclusion:
  assumes "now p = store_now"
    and "object s0 = Some (ann0, x)"
    and "non_nil ann0 key = None \<or> non_nil ann0 key = Some []"
    and "Marshal p \<lparr>Owner = b, ExpiresAt = clock s0 + db\<rparr> = Inr rb"
    and "Marshal p \<lparr>Owner = a, ExpiresAt = clock s0 + 1 + da\<rparr> = Inr ra"
  shows "Acquire (store_lock key b db item') p s0 =
      (None,
       \<lparr>object = Some (Some ((non_nil ann0)(key \<mapsto> rb)), x),
        version = next_version (version s0), clock = clock s0 + 1\<rparr>,
       [CallExists, CallGet, CallUpdate ((non_nil ann0)(key \<mapsto> rb)) (version s0) x])
    \<and> Acquire (after_get (store_lock key a da item)
          (\<lambda>w. world (Acquire (store_lock key b db item') p w))) p s0 =
      (Some (Opaque Conflict),
       \<lparr>object = Some (Some ((non_nil ann0)(key \<mapsto> rb)), x),
        version = next_version (version s0), clock = clock s0 + 2\<rparr>,
       [CallExists, CallGet, CallUpdate ((non_nil ann0)(key \<mapsto> ra)) (version s0) x])"
proof
  show won: "Acquire (store_lock key b db item') p s0 =
      (None,
       \<lparr>object = Some (Some ((non_nil ann0)(key \<mapsto> rb)), x),
        version = next_version (version s0), clock = clock s0 + 1\<rparr>,
       [CallExists, CallGet, CallUpdate ((non_nil ann0)(key \<mapsto> rb)) (version s0) x])"
    using assms(1-4) by (rule store_Acquire_free)
  let ?A = "after_get (store_lock key a da item)
      (\<lambda>w. world (Acquire (store_lock key b db item') p w))"
  let ?s1 = "\<lparr>object = Some (Some ((non_nil ann0)(key \<mapsto> rb)), x),
      version = next_version (version s0), clock = clock s0 + 1\<rparr>"
  have ens: "Acquire_ensure ?A s0 = (None, s0, [CallExists])"
    using assms(2)
    by (simp add: Acquire_ensure_def after_get_def store_lock_def store_exists_def)
  have get: "getMeta ?A s0 = (Inr (ann0, version s0, x), ?s1)"
    using assms(2) by (simp add: after_get_def store_lock_def [of key a] store_get_def won)
  have chk: "Acquire_check ?A p (non_nil ann0) ?s1 = (None, ?s1)"
    using assms(3) by (auto simp add: Acquire_check_def after_get_def store_lock_def)
  have clk: "now p ?s1 = (clock s0 + 1, ?s1\<lparr>clock := clock s0 + 2\<rparr>)"
    using assms(1) by (simp add: store_now_def)
  have enc: "Marshal p \<lparr>Owner = ownerID ?A, ExpiresAt = clock s0 + 1 + ttl ?A\<rparr> = Inr ra"
    using assms(5) by (simp add: after_get_def store_lock_def)
  have upd: "updateMeta ?A ((non_nil ann0)(annotationKey ?A \<mapsto> ra)) (version s0) x
      (?s1\<lparr>clock := clock s0 + 2\<rparr>) = (Some Conflict, ?s1\<lparr>clock := clock s0 + 2\<rparr>)"
    by (simp add: after_get_def store_lock_def store_update_def next_version_def)
  have "Acquire ?A p s0 =
      (Some (Opaque Conflict), ?s1\<lparr>clock := clock s0 + 2\<rparr>,
       [CallExists] @ [CallGet, CallUpdate ((non_nil ann0)(annotationKey ?A \<mapsto> ra)) (version s0) x])"
    using ens get chk clk enc upd by (rule Acquire_rejected)
  then show "Acquire ?A p s0 =
      (Some (Opaque Conflict),
       \<lparr>object = Some (Some ((non_nil ann0)(key \<mapsto> rb)), x),
        version = next_version (version s0), clock = clock s0 + 2\<rparr>,
       [CallExists, CallGet, CallUpdate ((non_nil ann0)(key \<mapsto> ra)) (version s0) x])"
    by (simp add: after_get_def store_lock_def)
qed

theorem Acquire_mutual_exclusion_witness:
  "now (sample_runtime :: (string store, fault) runtime) = store_now
   \<and> object world_fresh = Some (None, ''node'')
   \<and> non_nil None ''lock'' = None
   \<and> ''A'' \<noteq> ''B''
   \<and> Marshal sample_runtime \<lparr>Owner = ''B'', ExpiresAt = clock world_fresh + 5\<rparr>
       = Inr ''B@...............''
   \<and> Marshal sample_runtime \<lparr>Owner = ''A'', ExpiresAt = clock world_fresh + 1 + 5\<rparr>
       = Inr ''A@................''
   \<and> Acquire lock_B sample_runtime world_fresh =
       (None,
        \<lparr>object = Some (Some [''lock'' \<mapsto> ''B@...............''], ''node''),
         version = ''17'', clock = 11\<rparr>,
        [CallExists, CallGet, CallUpdate [''lock'' \<mapsto> ''B@...............''] ''7'' ''node''])
   \<and> Acquire (after_get lock_A (\<lambda>w. world (Acquire lock_B sample_runtime w)))
         sample_runtime world_fresh =
       (Some (Opaque Conflict),
        \<lparr>object = Some (Some [''lock'' \<mapsto> ''B@...............''], ''node''),
         version = ''17'', clock = 12\<rparr>,
        [CallExists, CallGet, CallUpdate [''lock'' \<mapsto> ''A@................''] ''7'' ''node''])"
  using Acquire_mutual_exclusion [of sample_runtime world_fresh None "''node''" "''lock''"
      "''B''" 5 "''B@...............''" "''A''" 5 "''A@................''" "''node''" "''node''"]
  by (simp add: sample_runtime_def sample_Marshal_def sample_store_def world_fresh_def
      lock_A_def lock_B_def next_version_def non_nil_def eval_nat_numeral)


subsection \<open>Release with nothing to release\<close>

text \<open>
  The claim C2 as stated fails for an absent key: with annotations that hold
  only another key, Release calls \<^verbatim>\<open>updateMeta\<close>, and the store has a new
  version and the key with the empty value afterwards.
\<close>

theorem Release_absent_counterexample:
  "existsMeta lock_A world_unlocked = (True, world_unlocked)
   \<and> getMeta lock_A world_unlocked = (Inr (Some [''tier'' \<mapsto> ''db''], ''7'', ''node''), world_unlocked)
   \<and> [''tier'' \<mapsto> ''db''] (annotationKey lock_A) = None
   \<and> calls (Release lock_A sample_runtime world_unlocked) =
       [CallExists, CallGet, CallUpdate [''tier'' \<mapsto> ''db'', ''lock'' \<mapsto> ''''] ''7'' ''node'']
   \<and> version (world (Release lock_A sample_runtime world_unlocked)) \<noteq> version world_unlocked
   \<and> object (world (Release lock_A sample_runtime world_unlocked)) =
       Some (Some [''tier'' \<mapsto> ''db'', ''lock'' \<mapsto> ''''], ''node'')"
  by (simp add: sample_defs Release_def Release_check_def non_nil_def)

text \<open>
  C2 (idempotent release), as amended. Release succeeds and calls nothing but
  \<^verbatim>\<open>existsMeta\<close> when the object does not exist, and nothing but \<^verbatim>\<open>existsMeta\<close>
  and \<^verbatim>\<open>getMeta\<close> when the key is present with the empty value; the world is
  the one these reads leave. When the key is absent, Release goes on to the
  conditional update: it writes the empty value under the key with the fetched
  version token, and its result is the result of that update.
\<close>

theorem Release_idempotent:
  "(existsMeta l w0 = (False, w1) \<longrightarrow> Release l p w0 = (None, w1, [CallExists]))
   \<and> (existsMeta l w0 = (True, w1) \<and> getMeta l w1 = (Inr (ann0, rv, extra), w2)
        \<and> non_nil ann0 (annotationKey l) = Some [] \<longrightarrow>
      Release l p w0 = (None, w2, [CallExists, CallGet]))
   \<and> (existsMeta l w0 = (True, w1) \<and> getMeta l w1 = (Inr (ann0, rv, extra), w2)
        \<and> non_nil ann0 (annotationKey l) = None \<longrightarrow>
      calls (Release l p w0) =
        [CallExists, CallGet, CallUpdate ((non_nil ann0)(annotationKey l \<mapsto> [])) rv extra]
      \<and> world (Release l p w0) =
        snd (updateMeta l ((non_nil ann0)(annotationKey l \<mapsto> [])) rv extra w2)
      \<and> result (Release l p w0) =
        map_option Opaque (fst (updateMeta l ((non_nil ann0)(annotationKey l \<mapsto> [])) rv extra w2)))"
proof (intro conjI impI)
  assume "existsMeta l w0 = (False, w1)"
  then show "Release l p w0 = (None, w1, [CallExists])"
    by (simp add: Release_def)
next
  assume "existsMeta l w0 = (True, w1) \<and> getMeta l w1 = (Inr (ann0, rv, extra), w2)
    \<and> non_nil ann0 (annotationKey l) = Some []"
  then have ex: "existsMeta l w0 = (True, w1)" and get: "getMeta l w1 = (Inr (ann0, rv, extra), w2)"
    and "Release_check l p (non_nil ann0) = Some None"
    by (simp_all add: Release_check_def)
  then show "Release l p w0 = (None, w2, [CallExists, CallGet])"
    by (rule Release_stopped)
next
  assume "existsMeta l w0 = (True, w1) \<and> getMeta l w1 = (Inr (ann0, rv, extra), w2)
    \<and> non_nil ann0 (annotationKey l) = None"
  then have ex: "existsMeta l w0 = (True, w1)" and get: "getMeta l w1 = (Inr (ann0, rv, extra), w2)"
    and chk: "Release_check l p (non_nil ann0) = None"
    by (simp_all add: Release_check_def)
  from Release_written [OF ex get chk]
  show "calls (Release l p w0) =
      [CallExists, CallGet, CallUpdate ((non_nil ann0)(annotationKey l \<mapsto> [])) rv extra]"
    and "world (Release l p w0) =
      snd (updateMeta l ((non_nil ann0)(annotationKey l \<mapsto> [])) rv extra w2)"
    and "result (Release l p w0) =
      map_option Opaque (fst (updateMeta l ((non_nil ann0)(annotationKey l \<mapsto> [])) rv extra w2))"
    by simp_all
qed

theorem Release_idempotent_witness:
  "existsMeta lock_A world_missing = (False, world_missing)
   \<and> Release lock_A sample_runtime world_missing = (None, world_missing, [CallExists])
   \<and> existsMeta lock_A world_released = (True, world_released)
   \<and> getMeta lock_A world_released = (Inr (Some [''lock'' \<mapsto> ''''], ''7'', ''node''), world_released)
   \<and> Release lock_A sample_runtime world_released = (None, world_released, [CallExists, CallGet])
   \<and> getMeta lock_A world_fresh = (Inr (None, ''7'', ''node''), world_fresh)
   \<and> calls (Release lock_A sample_runtime world_fresh) =
       [CallExists, CallGet, CallUpdate [''lock'' \<mapsto> ''''] ''7'' ''node'']
   \<and> result (Release lock_A sample_runtime world_fresh) = None"
  using Release_idempotent [of lock_A world_missing world_missing sample_runtime]
    Release_idempotent [of lock_A world_released world_released sample_runtime
      "Some [''lock'' \<mapsto> '''']" "''7''" "''node''" world_released]
    Release_idempotent [of lock_A world_fresh world_fresh sample_runtime
      None "''7''" "''node''" world_fresh]
  by (simp add: sample_defs non_nil_def)

subsection \<open>Acquire against a live lock of another owner\<close>

text \<open>
  C3 (conflict on a live foreign lock). When the fetched record belongs to another
  owner and the clock read at line 124 is before its expiry, Acquire returns the
  error with cause \<open>AlreadyLockedError\<close> and the message naming that owner, makes
  no update call, and leaves the world as the clock reading left it.
\<close>

theorem Acquire_conflict:
  assumes "Acquire_ensure l w0 = (None, w1, cs)"
    and "getMeta l w1 = (Inr (ann0, rv, extra), w2)"
    and "non_nil ann0 (annotationKey l) = Some raw" and "raw \<noteq> []"
    and "Unmarshal p raw = Inr d" and "Owner d \<noteq> ownerID l"
    and "now p w2 = (t, w3)" and "t < ExpiresAt d"
  shows "result (Acquire l p w0) = Some (WithCausef AlreadyLockedError (''locked by '' @ Owner d))
    \<and> filter is_update (calls (Acquire l p w0)) = []
    \<and> world (Acquire l p w0) = w3"
proof -
  have "Acquire_check l p (non_nil ann0) w2 =
      (Some (WithCausef AlreadyLockedError (''locked by '' @ Owner d)), w3)"
    using assms(3-8) by (rule Acquire_check_foreign_live)
  with assms(1,2) have "Acquire l p w0 =
      (Some (WithCausef AlreadyLockedError (''locked by '' @ Owner d)), w3, cs @ [CallGet])"
    by (rule Acquire_stopped)
  moreover have "filter is_update cs = []"
    using assms(1) by (rule Acquire_ensure_no_update)
  ultimately show ?thesis by simp
qed

theorem Acquire_conflict_witness:
  "Acquire_ensure lock_B world_held = (None, world_held, [CallExists])
   \<and> Unmarshal sample_runtime ''A@............'' = Inr \<lparr>Owner = ''A'', ExpiresAt = 12\<rparr>
   \<and> now sample_runtime world_held = (10, world_held\<lparr>clock := 11\<rparr>)
   \<and> result (Acquire lock_B sample_runtime world_held) = Some (WithCausef AlreadyLockedError ''locked by A'')
   \<and> filter is_update (calls (Acquire lock_B sample_runtime world_held)) = []
   \<and> world (Acquire lock_B sample_runtime world_held) = world_held\<lparr>clock := 11\<rparr>"
  using Acquire_conflict [of lock_B world_held world_held "[CallExists]"
      "Some [''lock'' \<mapsto> ''A@............'', ''tier'' \<mapsto> ''db'']" "''7''" "''node''" world_held
      "''A@............''" sample_runtime "\<lparr>Owner = ''A'', ExpiresAt = 12\<rparr>" 10 "world_held\<lparr>clock := 11\<rparr>"]
  by (simp add: sample_defs Acquire_ensure_def non_nil_def)

subsection \<open>Acquire against an expired lock of another owner\<close>



subsection \<open>Release against a lock record\<close>

text \<open>
  C5 (release authorization). For a fetched record of another owner, whatever its
  expiry, Release returns the error with cause \<open>NotLockedByMeError\<close> and the
  message naming that owner, after \<^verbatim>\<open>existsMeta\<close> and \<^verbatim>\<open>getMeta\<close> only. For a
  record of the coordinator's own owner, Release with a successful conditional
  update succeeds and has submitted the fetched map with the empty value under
  the key.
\<close>

theorem Release_authorization:
  assumes "existsMeta l w0 = (True, w1)"
    and "getMeta l w1 = (Inr (ann0, rv, extra), w2)"
    and "non_nil ann0 (annotationKey l) = Some raw" and "raw \<noteq> []"
    and "Unmarshal p raw = Inr d"
  shows "(Owner d \<noteq> ownerID l \<longrightarrow>
      Release l p w0 =
        (Some (WithCausef NotLockedByMeError (''locked by '' @ Owner d)), w2, [CallExists, CallGet]))
    \<and> (Owner d = ownerID l \<longrightarrow>
      (\<forall>w3. updateMeta l ((non_nil ann0)(annotationKey l \<mapsto> [])) rv extra w2 = (None, w3) \<longrightarrow>
        Release l p w0 =
          (None, w3,
           [CallExists, CallGet, CallUpdate ((non_nil ann0)(annotationKey l \<mapsto> [])) rv extra])))"
proof (intro conjI impI allI)
  assume "Owner d \<noteq> ownerID l"
  with assms(3-5) have "Release_check l p (non_nil ann0) =
      Some (Some (WithCausef NotLockedByMeError (''locked by '' @ Owner d)))"
    by (simp add: Release_check_def maskAny_def)
  with assms(1,2) show "Release l p w0 =
      (Some (WithCausef NotLockedByMeError (''locked by '' @ Owner d)), w2, [CallExists, CallGet])"
    by (rule Release_stopped)
next
  fix w3
  assume own: "Owner d = ownerID l"
    and upd: "updateMeta l ((non_nil ann0)(annotationKey l \<mapsto> [])) rv extra w2 = (None, w3)"
  from assms(3-5) own have "Release_check l p (non_nil ann0) = None"
    by (simp add: Release_check_def)
  with assms(1,2) upd show "Release l p w0 =
      (None, w3,
       [CallExists, CallGet, CallUpdate ((non_nil ann0)(annotationKey l \<mapsto> [])) rv extra])"
    by (simp add: Release_def)
qed

theorem Release_authorization_witness:
  "existsMeta lock_B world_expired = (True, world_expired)
   \<and> Unmarshal sample_runtime ''A@...'' = Inr \<lparr>Owner = ''A'', ExpiresAt = 3\<rparr>
   \<and> clock world_expired = 10
   \<and> Release lock_B sample_runtime world_expired =
       (Some (WithCausef NotLockedByMeError ''locked by A''), world_expired, [CallExists, CallGet])
   \<and> Release lock_A sample_runtime world_expired =
       (None,
        \<lparr>object = Some (Some [''lock'' \<mapsto> '''', ''tier'' \<mapsto> ''db''], ''node''),
         version = ''17'', clock = 10\<rparr>,
        [CallExists, CallGet, CallUpdate [''lock'' \<mapsto> '''', ''tier'' \<mapsto> ''db''] ''7'' ''node''])"
  using Release_authorization [of lock_B world_expired world_expired
      "Some [''lock'' \<mapsto> ''A@...'', ''tier'' \<mapsto> ''db'']" "''7''" "''node''" world_expired
      "''A@...''" sample_runtime "\<lparr>Owner = ''A'', ExpiresAt = 3\<rparr>"]
    Release_authorization [of lock_A world_expired world_expired
      "Some [''lock'' \<mapsto> ''A@...'', ''tier'' \<mapsto> ''db'']" "''7''" "''node''" world_expired
      "''A@...''" sample_runtime "\<lparr>Owner = ''A'', ExpiresAt = 3\<rparr>"]
  by (simp add: sample_defs non_nil_def fun_upd_twist)

subsection \<open>CurrentOwner\<close>

text \<open>
  C6 (owner visibility ignores expiry). After a successful fetch, CurrentOwner
  returns the owner of the decoded record whenever the key is present with a
  non-empty value that decodes, whatever the expiry of the record and the time;
  and it returns the empty string and no error when the key is absent or empty.
\<close>

theorem CurrentOwner_owner:
  assumes "getMeta l w0 = (Inr (ann0, rv, extra), w1)"
  shows "(\<forall>raw d. non_nil ann0 (annotationKey l) = Some raw \<and> raw \<noteq> [] \<and> Unmarshal p raw = Inr d \<longrightarrow>
      CurrentOwner l p w0 = ((Owner d, None), w1, [CallGet]))
    \<and> (non_nil ann0 (annotationKey l) = None \<or> non_nil ann0 (annotationKey l) = Some [] \<longrightarrow>
      CurrentOwner l p w0 = (([], None), w1, [CallGet]))"
  using assms by (auto simp add: CurrentOwner_def)

theorem CurrentOwner_owner_witness:
  "getMeta lock_B world_expired =
     (Inr (Some [''lock'' \<mapsto> ''A@...'', ''tier'' \<mapsto> ''db''], ''7'', ''node''), world_expired)
   \<and> Unmarshal sample_runtime ''A@...'' = Inr \<lparr>Owner = ''A'', ExpiresAt = 3\<rparr>
   \<and> ExpiresAt \<lparr>Owner = ''A'', ExpiresAt = 3\<rparr> < clock world_expired
   \<and> CurrentOwner lock_B sample_runtime world_expired = ((''A'', None), world_expired, [CallGet])
   \<and> getMeta lock_B world_fresh = (Inr (None, ''7'', ''node''), world_fresh)
   \<and> CurrentOwner lock_B sample_runtime world_fresh = (('''', None), world_fresh, [CallGet])
   \<and> CurrentOwner lock_B sample_runtime world_released = (('''', None), world_released, [CallGet])"
  using CurrentOwner_owner [of lock_B world_expired
      "Some [''lock'' \<mapsto> ''A@...'', ''tier'' \<mapsto> ''db'']" "''7''" "''node''" world_expired sample_runtime]
    CurrentOwner_owner [of lock_B world_fresh None "''7''" "''node''" world_fresh sample_runtime]
    CurrentOwner_owner [of lock_B world_released "Some [''lock'' \<mapsto> '''']" "''7''" "''node''"
      world_released sample_runtime]
  by (simp add: sample_defs non_nil_def)

subsection \<open>A value that does not decode\<close>

text \<open>
  C7 (malformed record). When the value under the key is non-empty and does not
  decode, Acquire, Release and CurrentOwner each return the decode error; Acquire
  and Release make no update call, and the world is the one the fetch left.
\<close>

theorem malformed_record:
  assumes "getMeta l w1 = (Inr (ann0, rv, extra), w2)"
    and "non_nil ann0 (annotationKey l) = Some raw" and "raw \<noteq> []"
    and "Unmarshal p raw = Inl err"
  shows "(\<forall>w0 cs. Acquire_ensure l w0 = (None, w1, cs) \<longrightarrow>
        result (Acquire l p w0) = Some (Opaque err) \<and> world (Acquire l p w0) = w2
        \<and> filter is_update (calls (Acquire l p w0)) = [])
    \<and> (\<forall>w0. existsMeta l w0 = (True, w1) \<longrightarrow>
        Release l p w0 = (Some (Opaque err), w2, [CallExists, CallGet]))
    \<and> CurrentOwner l p w1 = (([], Some (Opaque err)), w2, [CallGet])"
proof (intro conjI allI impI)
  fix w0 cs
  assume ens: "Acquire_ensure l w0 = (None, w1, cs)"
  have "Acquire_check l p (non_nil ann0) w2 = (Some (Opaque err), w2)"
    using assms(2-4) by (rule Acquire_check_malformed)
  with ens assms(1) have acq: "Acquire l p w0 = (Some (Opaque err), w2, cs @ [CallGet])"
    by (rule Acquire_stopped)
  have "filter is_update cs = []"
    using ens by (rule Acquire_ensure_no_update)
  with acq show "result (Acquire l p w0) = Some (Opaque err)" "world (Acquire l p w0) = w2"
    "filter is_update (calls (Acquire l p w0)) = []"
    by simp_all
next
  fix w0
  assume ex: "existsMeta l w0 = (True, w1)"
  have "Release_check l p (non_nil ann0) = Some (Some (Opaque err))"
    using assms(2-4) by (rule Release_check_malformed)
  with ex assms(1) show "Release l p w0 = (Some (Opaque err), w2, [CallExists, CallGet])"
    by (rule Release_stopped)
next
  show "CurrentOwner l p w1 = (([], Some (Opaque err)), w2, [CallGet])"
    using assms by (simp add: CurrentOwner_def maskAny_def)
qed

theorem malformed_record_witness:
  "getMeta lock_A world_garbled = (Inr (Some [''lock'' \<mapsto> ''{''], ''7'', ''node''), world_garbled)
   \<and> Unmarshal sample_runtime ''{'' = Inl SyntaxError
   \<and> Acquire_ensure lock_A world_garbled = (None, world_garbled, [CallExists])
   \<and> result (Acquire lock_A sample_runtime world_garbled) = Some (Opaque SyntaxError)
   \<and> world (Acquire lock_A sample_runtime world_garbled) = world_garbled
   \<and> filter is_update (calls (Acquire lock_A sample_runtime world_garbled)) = []
   \<and> Release lock_A sample_runtime world_garbled =
       (Some (Opaque SyntaxError), world_garbled, [CallExists, CallGet])
   \<and> CurrentOwner lock_A sample_runtime world_garbled =
       (('''', Some (Opaque SyntaxError)), world_garbled, [CallGet])"
  using malformed_record [of lock_A world_garbled "Some [''lock'' \<mapsto> ''{'']" "''7''" "''node''"
      world_garbled "''{''" sample_runtime SyntaxError]
  by (simp add: sample_defs non_nil_def Acquire_ensure_def)

subsection \<open>The version token of the update\<close>

text \<open>
  C8 (version token). Whenever Acquire or Release calls \<^verbatim>\<open>updateMeta\<close>, the token
  it submits is the one returned by the \<^verbatim>\<open>getMeta\<close> of that same call: the fetch
  made in the world that lines 100 to 106 (for Release, line 151) leave, which is
  the call immediately before the update. And when the fetch of a call returns
  the token \<open>token\<close> and the call goes on to its update, the result and the world
  of the call are those of \<^verbatim>\<open>updateMeta\<close> applied to the new map, that \<open>token\<close>
  and the fetched item. The coordinator holds no token, so none is carried from
  one call to the next.
\<close>

theorem update_token:
  "(CallUpdate ann rv item \<in> set (calls (Acquire l p w0)) \<longrightarrow>
      (\<exists>ann0 extra w2. getMeta l (world (Acquire_ensure l w0)) = (Inr (ann0, rv, extra), w2))
      \<and> calls (Acquire l p w0) = calls (Acquire_ensure l w0) @ [CallGet, CallUpdate ann rv item])
   \<and> (CallUpdate ann rv item \<in> set (calls (Release l p w0)) \<longrightarrow>
      (\<exists>ann0 extra w2. getMeta l (snd (existsMeta l w0)) = (Inr (ann0, rv, extra), w2))
      \<and> calls (Release l p w0) = [CallExists, CallGet, CallUpdate ann rv item])
   \<and> (Acquire_ensure l w0 = (None, w1, cs) \<and> getMeta l w1 = (Inr (fetched, token, extra), w2)
        \<and> Acquire_check l p (non_nil fetched) w2 = (None, w3) \<and> now p w3 = (t, w4)
        \<and> Marshal p \<lparr>Owner = ownerID l, ExpiresAt = t + ttl l\<rparr> = Inr raw \<longrightarrow>
      result (Acquire l p w0) =
        map_option Opaque
          (fst (updateMeta l ((non_nil fetched)(annotationKey l \<mapsto> raw)) token extra w4))
      \<and> world (Acquire l p w0) =
        snd (updateMeta l ((non_nil fetched)(annotationKey l \<mapsto> raw)) token extra w4)
      \<and> calls (Acquire l p w0) =
        cs @ [CallGet, CallUpdate ((non_nil fetched)(annotationKey l \<mapsto> raw)) token extra])
   \<and> (existsMeta l w0 = (True, w1) \<and> getMeta l w1 = (Inr (fetched, token, extra), w2)
        \<and> Release_check l p (non_nil fetched) = None \<longrightarrow>
      result (Release l p w0) =
        map_option Opaque
          (fst (updateMeta l ((non_nil fetched)(annotationKey l \<mapsto> [])) token extra w2))
      \<and> world (Release l p w0) =
        snd (updateMeta l ((non_nil fetched)(annotationKey l \<mapsto> [])) token extra w2)
      \<and> calls (Release l p w0) =
        [CallExists, CallGet, CallUpdate ((non_nil fetched)(annotationKey l \<mapsto> [])) token extra])"
proof (intro conjI impI)
  assume a: "CallUpdate ann rv item \<in> set (calls (Acquire l p w0))"
  from Acquire_update_call [OF a]
  show "\<exists>ann0 extra w2. getMeta l (world (Acquire_ensure l w0)) = (Inr (ann0, rv, extra), w2)"
    and "calls (Acquire l p w0) = calls (Acquire_ensure l w0) @ [CallGet, CallUpdate ann rv item]"
    by auto
next
  assume a: "CallUpdate ann rv item \<in> set (calls (Release l p w0))"
  from Release_update_call [OF a]
  show "\<exists>ann0 extra w2. getMeta l (snd (existsMeta l w0)) = (Inr (ann0, rv, extra), w2)"
    and "calls (Release l p w0) = [CallExists, CallGet, CallUpdate ann rv item]"
    by auto
next
  let ?ann = "(non_nil fetched)(annotationKey l \<mapsto> raw)"
  assume "Acquire_ensure l w0 = (None, w1, cs) \<and> getMeta l w1 = (Inr (fetched, token, extra), w2)
    \<and> Acquire_check l p (non_nil fetched) w2 = (None, w3) \<and> now p w3 = (t, w4)
    \<and> Marshal p \<lparr>Owner = ownerID l, ExpiresAt = t + ttl l\<rparr> = Inr raw"
  then have "Acquire l p w0 =
      (map_option Opaque (fst (updateMeta l ?ann token extra w4)),
       snd (updateMeta l ?ann token extra w4), cs @ [CallGet, CallUpdate ?ann token extra])"
    by (simp add: Acquire_def Acquire_prepare_def Acquire_update_def maskAny_def
        split: prod.split option.split)
  then show "result (Acquire l p w0) = map_option Opaque (fst (updateMeta l ?ann token extra w4))"
    and "world (Acquire l p w0) = snd (updateMeta l ?ann token extra w4)"
    and "calls (Acquire l p w0) = cs @ [CallGet, CallUpdate ?ann token extra]"
    by simp_all
next
  assume "existsMeta l w0 = (True, w1) \<and> getMeta l w1 = (Inr (fetched, token, extra), w2)
    \<and> Release_check l p (non_nil fetched) = None"
  then have "existsMeta l w0 = (True, w1)" and "getMeta l w1 = (Inr (fetched, token, extra), w2)"
    and "Release_check l p (non_nil fetched) = None"
    by simp_all
  from Release_written [OF this]
  show "result (Release l p w0) =
      map_option Opaque
        (fst (updateMeta l ((non_nil fetched)(annotationKey l \<mapsto> [])) token extra w2))"
    and "world (Release l p w0) =
      snd (updateMeta l ((non_nil fetched)(annotationKey l \<mapsto> [])) token extra w2)"
    and "calls (Release l p w0) =
      [CallExists, CallGet, CallUpdate ((non_nil fetched)(annotationKey l \<mapsto> [])) token extra]"
    by simp_all
qed



theorem update_token_witness:
  "Acquire_ensure lock_B world_expired = (None, world_expired, [CallExists])
   \<and> getMeta lock_B world_expired =
       (Inr (Some [''lock'' \<mapsto> ''A@...'', ''tier'' \<mapsto> ''db''], ''7'', ''node''), world_expired)
   \<and> Acquire_check lock_B sample_runtime [''lock'' \<mapsto> ''A@...'', ''tier'' \<mapsto> ''db''] world_expired =
       (None, world_expired\<lparr>clock := 11\<rparr>)
   \<and> now sample_runtime (world_expired\<lparr>clock := 11\<rparr>) = (11, world_expired\<lparr>clock := 12\<rparr>)
   \<and> Marshal sample_runtime \<lparr>Owner = ''B'', ExpiresAt = 11 + 5\<rparr> = Inr ''B@................''
   \<and> updateMeta lock_B [''lock'' \<mapsto> ''A@...'', ''tier'' \<mapsto> ''db'', ''lock'' \<mapsto> ''B@................'']
         ''7'' ''node'' (world_expired\<lparr>clock := 12\<rparr>) =
       (None,
        \<lparr>object = Some (Some [''lock'' \<mapsto> ''A@...'', ''tier'' \<mapsto> ''db'',
                                 ''lock'' \<mapsto> ''B@................''], ''node''),
         version = ''17'', clock = 12\<rparr>)
   \<and> result (Acquire lock_B sample_runtime world_expired) = None
   \<and> world (Acquire lock_B sample_runtime world_expired) =
       \<lparr>object = Some (Some [''lock'' \<mapsto> ''A@...'', ''tier'' \<mapsto> ''db'',
                                ''lock'' \<mapsto> ''B@................''], ''node''),
        version = ''17'', clock = 12\<rparr>
   \<and> calls (Acquire lock_B sample_runtime world_expired) =
       [CallExists, CallGet,
        CallUpdate [''lock'' \<mapsto> ''A@...'', ''tier'' \<mapsto> ''db'', ''lock'' \<mapsto> ''B@................'']
          ''7'' ''node'']
   \<and> existsMeta lock_A world_expired = (True, world_expired)
   \<and> Release_check lock_A sample_runtime [''lock'' \<mapsto> ''A@...'', ''tier'' \<mapsto> ''db''] = None
   \<and> result (Release lock_A sample_runtime world_expired) = None
   \<and> world (Release lock_A sample_runtime world_expired) =
       \<lparr>object = Some (Some [''lock'' \<mapsto> ''A@...'', ''tier'' \<mapsto> ''db'', ''lock'' \<mapsto> ''''], ''node''),
        version = ''17'', clock = 10\<rparr>
   \<and> calls (Release lock_A sample_runtime world_expired) =
       [CallExists, CallGet,
        CallUpdate [''lock'' \<mapsto> ''A@...'', ''tier'' \<mapsto> ''db'', ''lock'' \<mapsto> ''''] ''7'' ''node'']"
proof -
  let ?fetched = "Some [''lock'' \<mapsto> ''A@...'', ''tier'' \<mapsto> ''db'']"
  let ?w1 = "world_expired\<lparr>clock := 11\<rparr>"
  let ?w2 = "world_expired\<lparr>clock := 12\<rparr>"
  have nn: "non_nil ?fetched = [''lock'' \<mapsto> ''A@...'', ''tier'' \<mapsto> ''db'']"
    by (simp add: non_nil_def)
  have key: "annotationKey lock_B = ''lock''" "ownerID lock_B = ''B''" "ttl lock_B = 5"
    "annotationKey lock_A = ''lock''" "ownerID lock_A = ''A''"
    by (simp_all add: lock_A_def lock_B_def store_lock_def)
  have ens: "Acquire_ensure lock_B world_expired = (None, world_expired, [CallExists])"
    by (simp add: sample_defs Acquire_ensure_def)
  have get: "getMeta lock_B world_expired = (Inr (?fetched, ''7'', ''node''), world_expired)"
    by (simp add: sample_defs)
  have dec: "Unmarshal sample_runtime ''A@...'' = Inr \<lparr>Owner = ''A'', ExpiresAt = 3\<rparr>"
    by (simp add: sample_defs)
  have clk: "now sample_runtime world_expired = (10, ?w1)" "now sample_runtime ?w1 = (11, ?w2)"
    by (simp_all add: sample_defs)
  have chk: "Acquire_check lock_B sample_runtime (non_nil ?fetched) world_expired = (None, ?w1)"
    by (simp add: Acquire_check_def nn key dec clk)
  have enc: "Marshal sample_runtime \<lparr>Owner = ownerID lock_B, ExpiresAt = 11 + ttl lock_B\<rparr>
      = Inr ''B@................''"
    by (simp add: key sample_runtime_def sample_Marshal_def eval_nat_numeral)
  have upd: "updateMeta lock_B ((non_nil ?fetched)(annotationKey lock_B \<mapsto> ''B@................''))
      ''7'' ''node'' ?w2 =
      (None,
       \<lparr>object = Some (Some ((non_nil ?fetched)(annotationKey lock_B \<mapsto> ''B@................'')),
          ''node''),
        version = ''17'', clock = 12\<rparr>)"
    by (simp add: sample_defs)
  have acq: "result (Acquire lock_B sample_runtime world_expired) =
      map_option Opaque (fst (updateMeta lock_B
        ((non_nil ?fetched)(annotationKey lock_B \<mapsto> ''B@................'')) ''7'' ''node'' ?w2))
    \<and> world (Acquire lock_B sample_runtime world_expired) =
      snd (updateMeta lock_B
        ((non_nil ?fetched)(annotationKey lock_B \<mapsto> ''B@................'')) ''7'' ''node'' ?w2)
    \<and> calls (Acquire lock_B sample_runtime world_expired) =
      [CallExists] @ [CallGet, CallUpdate
        ((non_nil ?fetched)(annotationKey lock_B \<mapsto> ''B@................'')) ''7'' ''node'']"
    using update_token [where l = lock_B and p = sample_runtime and ?w0.0 = world_expired
        and ?w1.0 = world_expired and cs = "[CallExists]" and fetched = ?fetched
        and token = "''7''" and extra = "''node''" and ?w2.0 = world_expired and ?w3.0 = ?w1
        and t = 11 and ?w4.0 = ?w2 and raw = "''B@................''"]
      ens get chk clk(2) enc
    by blast
  have ex: "existsMeta lock_A world_expired = (True, world_expired)"
    by (simp add: sample_defs)
  have get': "getMeta lock_A world_expired = (Inr (?fetched, ''7'', ''node''), world_expired)"
    by (simp add: sample_defs)
  have chk': "Release_check lock_A sample_runtime (non_nil ?fetched) = None"
    by (simp add: Release_check_def nn key dec)
  have upd': "updateMeta lock_A ((non_nil ?fetched)(annotationKey lock_A \<mapsto> [])) ''7'' ''node''
      world_expired =
      (None,
       \<lparr>object = Some (Some ((non_nil ?fetched)(annotationKey lock_A \<mapsto> [])), ''node''),
        version = ''17'', clock = 10\<rparr>)"
    by (simp add: sample_defs)
  have rel: "result (Release lock_A sample_runtime world_expired) =
      map_option Opaque (fst (updateMeta lock_A
        ((non_nil ?fetched)(annotationKey lock_A \<mapsto> [])) ''7'' ''node'' world_expired))
    \<and> world (Release lock_A sample_runtime world_expired) =
      snd (updateMeta lock_A
        ((non_nil ?fetched)(annotationKey lock_A \<mapsto> [])) ''7'' ''node'' world_expired)
    \<and> calls (Release lock_A sample_runtime world_expired) =
      [CallExists, CallGet, CallUpdate
        ((non_nil ?fetched)(annotationKey lock_A \<mapsto> [])) ''7'' ''node'']"
    using update_token [where l = lock_A and p = sample_runtime and ?w0.0 = world_expired
        and ?w1.0 = world_expired and fetched = ?fetched
        and token = "''7''" and extra = "''node''" and ?w2.0 = world_expired]
      ex get' chk'
    by blast
  show ?thesis
    using ens get chk clk(2) enc upd acq ex chk' upd' rel
    by (simp add: nn key)
qed


subsection \<open>Renewal by the owner\<close>

text \<open>
  C9 (self-renewal) fails for an owner that the record encoding does not give
  back. The coordinator whose owner is the byte FF acquires the free lock at
  time 10 with a ttl of 5; the record it stores names the owner EF BF BD and
  expires at 15. Its next Acquire, at time 11 and so before the expiry, decodes
  that owner, finds it different from its own, and returns the error with cause
  \<open>AlreadyLockedError\<close> without an update, where the comment on Acquire says that
  a lock already held by us will be updated.
\<close>

theorem Acquire_renewal_refused:
  "Acquire lock_FF coercing_runtime world_fresh =
     (None, world_locked_FF,
      [CallExists, CallGet,
       CallUpdate [''lock'' \<mapsto> [CHR 0xEF, CHR 0xBF, CHR 0xBD] @ ''@...............''] ''7'' ''node''])
   \<and> Unmarshal coercing_runtime ([CHR 0xEF, CHR 0xBF, CHR 0xBD] @ ''@...............'') =
       Inr \<lparr>Owner = [CHR 0xEF, CHR 0xBF, CHR 0xBD], ExpiresAt = 15\<rparr>
   \<and> clock world_locked_FF < 15
   \<and> Acquire lock_FF coercing_runtime world_locked_FF =
     (Some (WithCausef AlreadyLockedError (''locked by '' @ [CHR 0xEF, CHR 0xBF, CHR 0xBD])),
      world_locked_FF\<lparr>clock := 12\<rparr>, [CallExists, CallGet])"
  by (simp add: sample_defs coerce_byte_def coercing_Marshal_def coercing_runtime_def lock_FF_def
      world_locked_FF_def Acquire_def Acquire_prepare_def Acquire_update_def Acquire_check_def
      Acquire_ensure_def non_nil_def maskAny_def eval_nat_numeral)


subsection \<open>What the update leaves untouched\<close>

text \<open>
  C10 (frame of the update). The map that Acquire or Release passes to
  \<^verbatim>\<open>updateMeta\<close> agrees with the fetched map on every key but the coordinator's
  annotation key, and the item passed is the item fetched.
\<close>

theorem update_frame:
  "(CallUpdate ann rv item \<in> set (calls (Acquire l p w0)) \<longrightarrow>
      (\<exists>ann0 rv0 w2. getMeta l (world (Acquire_ensure l w0)) = (Inr (ann0, rv0, item), w2)
        \<and> (\<forall>k. k \<noteq> annotationKey l \<longrightarrow> ann k = non_nil ann0 k)))
   \<and> (CallUpdate ann rv item \<in> set (calls (Release l p w0)) \<longrightarrow>
      (\<exists>ann0 rv0 w2. getMeta l (snd (existsMeta l w0)) = (Inr (ann0, rv0, item), w2)
        \<and> (\<forall>k. k \<noteq> annotationKey l \<longrightarrow> ann k = non_nil ann0 k)))"
proof (intro conjI impI)
  assume a: "CallUpdate ann rv item \<in> set (calls (Acquire l p w0))"
  from Acquire_update_call [OF a]
  show "\<exists>ann0 rv0 w2. getMeta l (world (Acquire_ensure l w0)) = (Inr (ann0, rv0, item), w2)
      \<and> (\<forall>k. k \<noteq> annotationKey l \<longrightarrow> ann k = non_nil ann0 k)"
    by auto
next
  assume a: "CallUpdate ann rv item \<in> set (calls (Release l p w0))"
  from Release_update_call [OF a]
  show "\<exists>ann0 rv0 w2. getMeta l (snd (existsMeta l w0)) = (Inr (ann0, rv0, item), w2)
      \<and> (\<forall>k. k \<noteq> annotationKey l \<longrightarrow> ann k = non_nil ann0 k)"
    by auto
qed

theorem update_frame_witness:
  "CallUpdate [''lock'' \<mapsto> ''B@................'', ''tier'' \<mapsto> ''db''] ''7'' ''node''
     \<in> set (calls (Acquire lock_B sample_runtime world_expired))
   \<and> getMeta lock_B (world (Acquire_ensure lock_B world_expired)) =
       (Inr (Some [''lock'' \<mapsto> ''A@...'', ''tier'' \<mapsto> ''db''], ''7'', ''node''), world_expired)
   \<and> [''lock'' \<mapsto> ''B@................'', ''tier'' \<mapsto> ''db''] ''tier'' = Some ''db''
   \<and> CallUpdate [''lock'' \<mapsto> '''', ''tier'' \<mapsto> ''db''] ''7'' ''node''
     \<in> set (calls (Release lock_A sample_runtime world_expired))"
  using update_frame [of "[''lock'' \<mapsto> ''B@................'', ''tier'' \<mapsto> ''db'']" "''7''" "''node''"
      lock_B sample_runtime world_expired]
    update_frame [of "[''lock'' \<mapsto> '''', ''tier'' \<mapsto> ''db'']" "''7''" "''node''"
      lock_A sample_runtime world_expired]
  by (simp add: sample_defs Acquire_def Acquire_prepare_def Acquire_update_def Acquire_check_def
      Acquire_ensure_def Release_def Release_check_def non_nil_def eval_nat_numeral fun_upd_twist)

end
